theory Spec2Isabelle
  imports Main
begin

section \<open>The QR challenge store (utils/qr-store)\<close>

text \<open>
  \<^verbatim>\<open>class QRStore\<close> keeps a \<^verbatim>\<open>Map<string, { qr: string; timestamp: number }>\<close>.
  \<^verbatim>\<open>Date.now()\<close> is an integer number of milliseconds; every operation takes the
  value it reads from the clock as its first argument and returns the updated map.
\<close>

record qr_entry =
  qr :: string
  timestamp :: int

type_synonym qrCodes = "string \<rightharpoonup> qr_entry"

definition TTL :: int where
  "TTL = 5 * 60 * 1000"

definition storeQR :: "int \<Rightarrow> string \<Rightarrow> string \<Rightarrow> qrCodes \<Rightarrow> qrCodes" where
  "storeQR now sessionName q m = m(sessionName \<mapsto> \<lparr>qr = q, timestamp = now\<rparr>)"

definition getQR :: "int \<Rightarrow> string \<Rightarrow> qrCodes \<Rightarrow> string option \<times> qrCodes" where
  "getQR now sessionName m =
     (case m sessionName of
        None \<Rightarrow> (None, m)
      | Some stored \<Rightarrow>
          if now - timestamp stored > TTL
          then (None, m(sessionName := None))
          else (Some (qr stored), m))"

definition removeQR :: "string \<Rightarrow> qrCodes \<Rightarrow> qrCodes" where
  "removeQR sessionName m = m(sessionName := None)"

section \<open>JavaScript values\<close>

text \<open>
  The body of an HTTP response is whatever \<^verbatim>\<open>JSON.parse\<close> produced (\<^verbatim>\<open>response.data\<close>
  has type \<^verbatim>\<open>any\<close>). An object is the list of its own properties, read with
  \<open>map_of\<close>; numbers are the integer-valued ones. A JavaScript value that may be
  \<^verbatim>\<open>undefined\<close> is a \<open>json option\<close>, with \<open>None\<close> for \<^verbatim>\<open>undefined\<close>.
\<close>

datatype json =
    JNull
  | JBool bool
  | JNum int
  | JStr string
  | JArr "json list"
  | JObj "(string \<times> json) list"

type_synonym jsval = "json option"

datatype js_error =
    AxiosError "json option" string  \<comment> \<open>\<^verbatim>\<open>error.response?.data\<close> and \<^verbatim>\<open>error.message\<close>\<close>
  | FailedToFetch "json + string"    \<comment> \<open>\<^verbatim>\<open>Error("Failed to fetch OAuth token: " + details)\<close>\<close>
  | UnexpectedFormat json            \<comment> \<open>\<^verbatim>\<open>Error("Unexpected token response format: " + data)\<close>\<close>
  | TypeError
  | RangeError

text \<open>Truthiness, as \<^verbatim>\<open>if (v)\<close>, \<^verbatim>\<open>!v\<close> and \<^verbatim>\<open>v || w\<close> test it.\<close>

fun truthy :: "jsval \<Rightarrow> bool" where
  "truthy None = False"
| "truthy (Some JNull) = False"
| "truthy (Some (JBool b)) = b"
| "truthy (Some (JNum n)) = (n \<noteq> 0)"
| "truthy (Some (JStr s)) = (s \<noteq> [])"
| "truthy (Some (JArr xs)) = True"
| "truthy (Some (JObj kvs)) = True"

definition js_or :: "jsval \<Rightarrow> jsval \<Rightarrow> jsval" where
  "js_or a b = (if truthy a then a else b)"

text \<open>A nullable string column or field (\<^verbatim>\<open>string | null\<close>): falsy when null or empty.\<close>

fun truthy_str :: "string option \<Rightarrow> bool" where
  "truthy_str None = False"
| "truthy_str (Some s) = (s \<noteq> [])"

text \<open>
  Property access \<^verbatim>\<open>v.name\<close> for the names the code reads (\<^verbatim>\<open>access_token\<close>,
  \<^verbatim>\<open>token\<close>, \<^verbatim>\<open>expires_in\<close>, \<^verbatim>\<open>expiresIn\<close>, \<^verbatim>\<open>success\<close>, \<^verbatim>\<open>data\<close>): a
  \<^verbatim>\<open>TypeError\<close> on \<^verbatim>\<open>null\<close>, the property of an object, \<^verbatim>\<open>undefined\<close> on any
  other value. \<open>opt_field\<close> is the optional chain \<^verbatim>\<open>v?.name\<close>.
\<close>

fun field :: "json \<Rightarrow> string \<Rightarrow> js_error + jsval" where
  "field JNull name = Inl TypeError"
| "field (JObj kvs) name = Inr (map_of kvs name)"
| "field v name = Inr None"

fun opt_field :: "jsval \<Rightarrow> string \<Rightarrow> jsval" where
  "opt_field None name = None"
| "opt_field (Some JNull) name = None"
| "opt_field (Some (JObj kvs)) name = map_of kvs name"
| "opt_field (Some v) name = None"

text \<open>\<^verbatim>\<open>String.prototype.includes\<close>: the argument occurs somewhere in the string.\<close>

fun includes_str :: "string \<Rightarrow> string \<Rightarrow> bool" where
  "includes_str [] sub = (sub = [])"
| "includes_str (c # cs) sub = (take (length sub) (c # cs) = sub \<or> includes_str cs sub)"

section \<open>Base64 (\<^verbatim>\<open>Buffer.from(s).toString("base64")\<close>)\<close>

text \<open>
  A \<open>string\<close> is the list of the bytes of the text's UTF-8 encoding, which is what
  \<^verbatim>\<open>Buffer.from\<close> produces. The encoding is the standard one of RFC 4648: three bytes
  become four characters of the alphabet, and the last group is padded with \<open>=\<close>.
\<close>

definition b64_alphabet :: string where
  "b64_alphabet = ''ABCDEFGHIJKLMNOPQRSTUVWXYZabcdefghijklmnopqrstuvwxyz0123456789+/''"

definition b64_char :: "nat \<Rightarrow> char" where
  "b64_char k = b64_alphabet ! (k mod 64)"

fun base64 :: "string \<Rightarrow> string" where
  "base64 [] = []"
| "base64 [a] =
     (let n = of_char a * 65536
      in [b64_char (n div 262144), b64_char (n div 4096), CHR ''='', CHR ''=''])"
| "base64 [a, b] =
     (let n = of_char a * 65536 + of_char b * 256
      in [b64_char (n div 262144), b64_char (n div 4096), b64_char (n div 64), CHR ''=''])"
| "base64 (a # b # c # rest) =
     (let n = of_char a * 65536 + of_char b * 256 + of_char c
      in [b64_char (n div 262144), b64_char (n div 4096), b64_char (n div 64), b64_char n]
         @ base64 rest)"

declare base64.simps [simp del]

section \<open>The users table (database/db)\<close>

text \<open>
  A row of \<^verbatim>\<open>users\<close>, as \<^verbatim>\<open>interface User\<close> declares it. The column
  \<^verbatim>\<open>webhook_auth_token_expiration\<close> is written in two places only: by
  \<^verbatim>\<open>getValidOAuthToken\<close>, with \<^verbatim>\<open>new Date(t).toISOString()\<close> of a valid time value
  \<open>t\<close>, and by the \<^verbatim>\<open>PUT /webhook-auth\<close> handler, with \<^verbatim>\<open>null\<close>. It is kept here as
  the time value the text denotes (milliseconds since the epoch), which is what
  \<^verbatim>\<open>new Date(text).getTime()\<close> reads back from it.
\<close>

record user =
  user_id :: int
  username :: string
  password :: string
  is_admin :: int
  session_name :: "string option"
  callback_url :: "string option"
  webhook_auth_type :: "string option"
  webhook_auth_username :: "string option"
  webhook_auth_password :: "string option"
  webhook_auth_token_url :: "string option"
  webhook_auth_token :: "string option"
  webhook_auth_token_expiration :: "int option"
  webhook_oauth_format :: "string option"
  created_at :: string

text \<open>
  The \<^verbatim>\<open>authConfig\<close> argument of \<^verbatim>\<open>updateUserWebhookAuth\<close>: every property is
  optional. \<open>None\<close> is a property that is \<^verbatim>\<open>undefined\<close>, \<open>Some None\<close> one that is
  \<^verbatim>\<open>null\<close>. The fields carry the prefix \<open>cfg_\<close> to keep them apart from the columns.
\<close>

record authConfig =
  cfg_webhook_auth_type :: "string option option"
  cfg_webhook_auth_username :: "string option option"
  cfg_webhook_auth_password :: "string option option"
  cfg_webhook_auth_token_url :: "string option option"
  cfg_webhook_auth_token :: "string option option"
  cfg_webhook_auth_token_expiration :: "int option option"
  cfg_webhook_oauth_format :: "string option option"

definition no_updates :: authConfig where
  "no_updates =
     \<lparr>cfg_webhook_auth_type = None, cfg_webhook_auth_username = None,
      cfg_webhook_auth_password = None, cfg_webhook_auth_token_url = None,
      cfg_webhook_auth_token = None, cfg_webhook_auth_token_expiration = None,
      cfg_webhook_oauth_format = None\<rparr>"

text \<open>
  The \<^verbatim>\<open>UPDATE users SET ... WHERE id = ?\<close> that \<^verbatim>\<open>updateUserWebhookAuth\<close> builds: one
  assignment for each property that is not \<^verbatim>\<open>undefined\<close>, applied to the rows with that id.
  With no assignment no statement is run.
\<close>

definition set_columns :: "authConfig \<Rightarrow> user \<Rightarrow> user" where
  "set_columns c u =
     (let u1 = (case cfg_webhook_auth_type c of None \<Rightarrow> u | Some v \<Rightarrow> u\<lparr>webhook_auth_type := v\<rparr>);
          u2 = (case cfg_webhook_auth_username c of None \<Rightarrow> u1 | Some v \<Rightarrow> u1\<lparr>webhook_auth_username := v\<rparr>);
          u3 = (case cfg_webhook_auth_password c of None \<Rightarrow> u2 | Some v \<Rightarrow> u2\<lparr>webhook_auth_password := v\<rparr>);
          u4 = (case cfg_webhook_auth_token_url c of None \<Rightarrow> u3 | Some v \<Rightarrow> u3\<lparr>webhook_auth_token_url := v\<rparr>);
          u5 = (case cfg_webhook_auth_token c of None \<Rightarrow> u4 | Some v \<Rightarrow> u4\<lparr>webhook_auth_token := v\<rparr>);
          u6 = (case cfg_webhook_auth_token_expiration c of None \<Rightarrow> u5
                | Some v \<Rightarrow> u5\<lparr>webhook_auth_token_expiration := v\<rparr>);
          u7 = (case cfg_webhook_oauth_format c of None \<Rightarrow> u6 | Some v \<Rightarrow> u6\<lparr>webhook_oauth_format := v\<rparr>)
      in u7)"

definition updateUserWebhookAuth :: "int \<Rightarrow> authConfig \<Rightarrow> user list \<Rightarrow> user list" where
  "updateUserWebhookAuth userId c rows =
     map (\<lambda>u. if user_id u = userId then set_columns c u else u) rows"

definition getUserByUsername :: "user list \<Rightarrow> string \<Rightarrow> user option" where
  "getUserByUsername rows name = find (\<lambda>u. username u = name) rows"

section \<open>The network, the clock and the process environment\<close>

text \<open>
  What \<^verbatim>\<open>axios.post(url, body, { headers })\<close> is called with. The bodies the code sends are
  the form of the OAuth 2.0 request (\<^verbatim>\<open>URLSearchParams\<close>, in the order of the
  \<^verbatim>\<open>append\<close> calls), the object \<^verbatim>\<open>{ username, password }\<close> of the JSON login, and the
  two webhook bodies.
\<close>

record message_body =
  body_session :: string
  body_from :: "string option"
  body_messageId :: "string option"
  body_message :: "string option"
  body_media_image :: "string option"
  body_media_video :: "string option"
  body_media_document :: "string option"
  body_media_audio :: "string option"

datatype post_body =
    Form "(string \<times> string) list"
  | Login string string
  | MessageEvent message_body
  | SessionEvent string string   \<comment> \<open>\<^verbatim>\<open>{ session, status }\<close>\<close>

record request =
  url :: string
  body :: post_body
  headers :: "(string \<times> string) list"

text \<open>
  What the remote end does with a request: the connection fails (with a message), or a
  response with a status and a parsed body arrives.
\<close>

datatype http_result =
    NetworkError string
  | Response nat json

text \<open>
  The environment of the process. \<open>respond k r\<close> is the outcome of request \<open>r\<close> when
  \<open>k\<close> requests were issued before it, and \<open>clock k\<close> is the value of the clock at its
  \<open>k\<close>-th reading, so that any sequence of outcomes and of times is covered.
  \<open>WEBHOOK_BASE_URL\<close> is \<^verbatim>\<open>env.WEBHOOK_BASE_URL\<close>. The last three fields are the parts of
  the JavaScript runtime and of the SQLite driver that act on a value of the wrong type: the
  number a value that is not a number converts to in \<^verbatim>\<open>expiresIn * 1000\<close> (\<open>None\<close> for
  \<^verbatim>\<open>NaN\<close>), the text a value that is not a string converts to in a template literal, and
  the text a value that is not a string is bound to in a \<^verbatim>\<open>TEXT\<close> column (\<open>None\<close> when
  the driver throws).
\<close>

record env =
  respond :: "nat \<Rightarrow> request \<Rightarrow> http_result"
  clock :: "nat \<Rightarrow> int"
  WEBHOOK_BASE_URL :: "string option"
  coerce_number :: "json \<Rightarrow> int option"
  coerce_string :: "json \<Rightarrow> string"
  bind_text :: "json \<Rightarrow> string option"

text \<open>
  The state the code acts on: the rows of \<^verbatim>\<open>users\<close>, the requests issued so far in the
  order of issue, and the number of clock readings made so far.
\<close>

record world =
  users :: "user list"
  posts :: "request list"
  ticks :: nat

definition Date_now :: "env \<Rightarrow> world \<Rightarrow> int \<times> world" where
  "Date_now e w = (clock e (ticks w), w\<lparr>ticks := Suc (ticks w)\<rparr>)"

text \<open>The decimal digits of a number, for the message of a failed request.\<close>

fun decimal :: "nat \<Rightarrow> string" where
  "decimal n =
     (if n < 10 then [char_of (48 + n)]
      else decimal (n div 10) @ [char_of (48 + n mod 10)])"

declare decimal.simps [simp del]

text \<open>
  \<^verbatim>\<open>axios.post\<close>: the request is issued; a failed connection and a status outside
  200..299 throw an \<^verbatim>\<open>AxiosError\<close>, otherwise \<^verbatim>\<open>response.data\<close> is returned.
\<close>

definition axios_post :: "env \<Rightarrow> request \<Rightarrow> world \<Rightarrow> (js_error + json) \<times> world" where
  "axios_post e r w =
     (let w' = w\<lparr>posts := posts w @ [r]\<rparr>
      in case respond e (length (posts w)) r of
           NetworkError m \<Rightarrow> (Inl (AxiosError None m), w')
         | Response st d \<Rightarrow>
             if 200 \<le> st \<and> st < 300 then (Inr d, w')
             else (Inl (AxiosError (Some d) (''Request failed with status code '' @ decimal st)), w'))"

definition toNumber :: "env \<Rightarrow> json \<Rightarrow> int option" where
  "toNumber e v = (case v of JNum n \<Rightarrow> Some n | _ \<Rightarrow> coerce_number e v)"

definition toString :: "env \<Rightarrow> json \<Rightarrow> string" where
  "toString e v = (case v of JStr s \<Rightarrow> s | _ \<Rightarrow> coerce_string e v)"

definition bindText :: "env \<Rightarrow> json \<Rightarrow> string option" where
  "bindText e v = (case v of JStr s \<Rightarrow> Some s | _ \<Rightarrow> bind_text e v)"

section \<open>OAuth token acquisition and the auth headers (utils/webhook-auth)\<close>

text \<open>
  What \<^verbatim>\<open>fetchOAuthToken\<close> returns, reduced to the two properties its caller reads. In the
  first branch the code returns \<^verbatim>\<open>data\<close> itself, so \<open>expires_in\<close> is then the property
  \<^verbatim>\<open>data.expires_in\<close>.
\<close>

record OAuthTokenResponse =
  access_token :: jsval
  expires_in :: jsval

definition token_request :: "string \<Rightarrow> string \<Rightarrow> string \<Rightarrow> string \<Rightarrow> request" where
  "token_request uname pw tokenUrl format =
     (if format = ''json''
      then \<lparr>url = tokenUrl, body = Login uname pw,
            headers = [(''Content-Type'', ''application/json'')]\<rparr>
      else \<lparr>url = tokenUrl,
            body = Form [(''grant_type'', ''client_credentials''),
                         (''client_id'', uname), (''client_secret'', pw)],
            headers = [(''Content-Type'', ''application/x-www-form-urlencoded'')]\<rparr>)"

text \<open>
  The part of \<^verbatim>\<open>fetchOAuthToken\<close> after the request (``handle different response
  formats''). Reading a property of \<^verbatim>\<open>null\<close> throws a \<^verbatim>\<open>TypeError\<close>.
\<close>

definition handle_response :: "json \<Rightarrow> js_error + OAuthTokenResponse" where
  "handle_response d =
     (case field d ''access_token'' of
        Inl err \<Rightarrow> Inl err
      | Inr at \<Rightarrow>
          if truthy at
          then Inr \<lparr>access_token = at, expires_in = opt_field (Some d) ''expires_in''\<rparr>
          else if truthy (opt_field (Some d) ''token'')
          then Inr \<lparr>access_token = opt_field (Some d) ''token'',
                    expires_in = js_or (opt_field (Some d) ''expires_in'')
                                       (opt_field (Some d) ''expiresIn'')\<rparr>
          else if truthy (opt_field (Some d) ''success'')
                  \<and> truthy (opt_field (opt_field (Some d) ''data'') ''token'')
          then Inr \<lparr>access_token = opt_field (opt_field (Some d) ''data'') ''token'',
                    expires_in = js_or (opt_field (opt_field (Some d) ''data'') ''expires_in'')
                                       (opt_field (opt_field (Some d) ''data'') ''expiresIn'')\<rparr>
          else Inl (UnexpectedFormat d))"

definition fetchOAuthToken ::
  "env \<Rightarrow> string \<Rightarrow> string \<Rightarrow> string \<Rightarrow> string \<Rightarrow> world \<Rightarrow> (js_error + OAuthTokenResponse) \<times> world" where
  "fetchOAuthToken e uname pw tokenUrl format w =
     (case axios_post e (token_request uname pw tokenUrl format) w of
        (Inr d, w') \<Rightarrow> (handle_response d, w')
      | (Inl (AxiosError (Some rd) m), w') \<Rightarrow>
          (Inl (FailedToFetch (if truthy (Some rd) then Inl rd else Inr m)), w')
      | (Inl (AxiosError None m), w') \<Rightarrow> (Inl (FailedToFetch (Inr m)), w')
      | (Inl err, w') \<Rightarrow> (Inl err, w'))"

definition bufferTime :: int where
  "bufferTime = 5 * 60 * 1000"

definition isTokenExpired :: "env \<Rightarrow> int option \<Rightarrow> world \<Rightarrow> bool \<times> world" where
  "isTokenExpired e expirationTime w =
     (case expirationTime of
        None \<Rightarrow> (True, w)
      | Some expiration \<Rightarrow>
          (case Date_now e w of (now, w') \<Rightarrow> (expiration - now < bufferTime, w')))"

text \<open>
  A time value is a valid \<^verbatim>\<open>Date\<close> when its magnitude is at most 8.64e15 ms;
  \<^verbatim>\<open>toISOString\<close> throws a \<^verbatim>\<open>RangeError\<close> on any other.
\<close>

definition valid_time :: "int \<Rightarrow> bool" where
  "valid_time t = (- 8640000000000000 \<le> t \<and> t \<le> 8640000000000000)"

text \<open>
  The \<^verbatim>\<open>try\<close> block of \<^verbatim>\<open>getValidOAuthToken\<close> after a successful fetch: compute the
  expiration, store token and expiration, return the token. Whatever is thrown here (the
  \<^verbatim>\<open>RangeError\<close> of \<^verbatim>\<open>toISOString\<close>, the driver's error on a value it cannot bind) is
  caught by the same \<^verbatim>\<open>catch\<close> as a failed fetch, and \<^verbatim>\<open>null\<close> is returned. The
  conversion of \<^verbatim>\<open>undefined\<close> to a number is \<^verbatim>\<open>NaN\<close>, and a property that is
  \<^verbatim>\<open>undefined\<close> is left out of the \<^verbatim>\<open>UPDATE\<close>.
\<close>

definition store_token :: "env \<Rightarrow> user \<Rightarrow> OAuthTokenResponse \<Rightarrow> world \<Rightarrow> jsval \<times> world" where
  "store_token e u tokenResponse w =
     (case Date_now e w of (now, w1) \<Rightarrow>
        (case (case js_or (expires_in tokenResponse) (Some (JNum 3600)) of
                 None \<Rightarrow> None
               | Some expiresIn \<Rightarrow> toNumber e expiresIn) of
           None \<Rightarrow> (Some JNull, w1)
         | Some n \<Rightarrow>
             if valid_time (now + n * 1000)
             then (case access_token tokenResponse of
                     None \<Rightarrow>
                       (None,
                        w1\<lparr>users := updateUserWebhookAuth (user_id u)
                             (no_updates\<lparr>cfg_webhook_auth_token_expiration := Some (Some (now + n * 1000))\<rparr>)
                             (users w1)\<rparr>)
                   | Some tok \<Rightarrow>
                       (case bindText e tok of
                          None \<Rightarrow> (Some JNull, w1)
                        | Some txt \<Rightarrow>
                            (Some tok,
                             w1\<lparr>users := updateUserWebhookAuth (user_id u)
                                  (no_updates\<lparr>cfg_webhook_auth_token := Some (Some txt),
                                     cfg_webhook_auth_token_expiration := Some (Some (now + n * 1000))\<rparr>)
                                  (users w1)\<rparr>)))
             else (Some JNull, w1)))"

text \<open>\<^verbatim>\<open>user.webhook_oauth_format || 'oauth2'\<close>.\<close>

definition oauth_format :: "user \<Rightarrow> string" where
  "oauth_format u =
     (case webhook_oauth_format u of
        None \<Rightarrow> ''oauth2''
      | Some f \<Rightarrow> if f = [] then ''oauth2'' else f)"

text \<open>
  The body of the \<^verbatim>\<open>try\<close> in \<^verbatim>\<open>getValidOAuthToken\<close>, entered when the token needs
  renewal; the \<^verbatim>\<open>catch\<close> turns whatever was thrown into \<^verbatim>\<open>null\<close>.
\<close>

definition renew_token :: "env \<Rightarrow> user \<Rightarrow> string \<Rightarrow> string \<Rightarrow> string \<Rightarrow> world \<Rightarrow> jsval \<times> world" where
  "renew_token e u uname pw tokenUrl w =
     (case fetchOAuthToken e uname pw tokenUrl (oauth_format u) w of
        (Inl err, w') \<Rightarrow> (Some JNull, w')
      | (Inr tokenResponse, w') \<Rightarrow> store_token e u tokenResponse w')"

definition getValidOAuthToken :: "env \<Rightarrow> user \<Rightarrow> world \<Rightarrow> jsval \<times> world" where
  "getValidOAuthToken e u w =
     (case (webhook_auth_username u, webhook_auth_password u, webhook_auth_token_url u) of
        (Some uname, Some pw, Some tokenUrl) \<Rightarrow>
          if uname \<noteq> [] \<and> pw \<noteq> [] \<and> tokenUrl \<noteq> []
          then (case webhook_auth_token u of
                  None \<Rightarrow> renew_token e u uname pw tokenUrl w
                | Some tok \<Rightarrow>
                    if tok = [] then renew_token e u uname pw tokenUrl w
                    else (case isTokenExpired e (webhook_auth_token_expiration u) w of
                            (True, w') \<Rightarrow> renew_token e u uname pw tokenUrl w'
                          | (False, w') \<Rightarrow> (Some (JStr tok), w')))
          else (Some JNull, w)
      | _ \<Rightarrow> (Some JNull, w))"

definition getWebhookAuthHeaders ::
  "env \<Rightarrow> user option \<Rightarrow> world \<Rightarrow> (string \<times> string) list \<times> world" where
  "getWebhookAuthHeaders e uo w =
     (case uo of
        None \<Rightarrow> ([], w)
      | Some u \<Rightarrow>
          (case webhook_auth_type u of
             None \<Rightarrow> ([], w)
           | Some authType \<Rightarrow>
               if authType = [] \<or> authType = ''none'' then ([], w)
               else if authType = ''basic''
               then (case (webhook_auth_username u, webhook_auth_password u) of
                       (Some uname, Some pw) \<Rightarrow>
                         if uname \<noteq> [] \<and> pw \<noteq> []
                         then ([(''Authorization'', ''Basic '' @ base64 (uname @ '':'' @ pw))], w)
                         else ([], w)
                     | _ \<Rightarrow> ([], w))
               else if authType = ''bearer''
               then (case webhook_auth_token u of
                       Some tok \<Rightarrow>
                         if tok \<noteq> [] then ([(''Authorization'', ''Bearer '' @ tok)], w)
                         else ([], w)
                     | None \<Rightarrow> ([], w))
               else if authType = ''oauth''
               then (case getValidOAuthToken e u w of
                       (Some tok, w') \<Rightarrow>
                         if truthy (Some tok)
                         then ([(''Authorization'', ''Bearer '' @ toString e tok)], w')
                         else ([], w')
                     | (None, w') \<Rightarrow> ([], w'))
               else ([], w)))"

section \<open>The dispatcher (index)\<close>

text \<open>
  A received message, reduced to what the handler reads: the session, the key and the
  texts the body is chosen from. \<^verbatim>\<open>messageStore.storeMessage\<close>, called first by the handler,
  keeps the message in a store of its own and touches neither the table nor the network.
\<close>

record message_key =
  fromMe :: "bool option"
  remoteJid :: "string option"
  key_id :: "string option"

record message_content =
  conversation :: "string option"
  extendedTextMessage_text :: "string option"
  imageMessage_caption :: "string option"
  videoMessage_caption :: "string option"
  documentMessage_caption :: "string option"
  contactMessage_displayName :: "string option"
  locationMessage_comment :: "string option"
  liveLocationMessage_caption :: "string option"

record MessageReceived =
  sessionId :: string
  key :: message_key
  message :: "message_content option"

definition str_or :: "string option \<Rightarrow> string option \<Rightarrow> string option" where
  "str_or a b = (if truthy_str a then a else b)"

definition message_text :: "message_content option \<Rightarrow> string option" where
  "message_text mo =
     (case mo of
        None \<Rightarrow> None
      | Some c \<Rightarrow>
          str_or (conversation c)
         (str_or (extendedTextMessage_text c)
         (str_or (imageMessage_caption c)
         (str_or (videoMessage_caption c)
         (str_or (documentMessage_caption c)
         (str_or (contactMessage_displayName c)
         (str_or (locationMessage_comment c)
         (str_or (liveLocationMessage_caption c) None))))))))"

definition message_event :: "MessageReceived \<Rightarrow> post_body" where
  "message_event m =
     MessageEvent
       \<lparr>body_session = sessionId m, body_from = remoteJid (key m),
        body_messageId = key_id (key m), body_message = message_text (message m),
        body_media_image = None, body_media_video = None,
        body_media_document = None, body_media_audio = None\<rparr>"

definition getUserForSession :: "user list \<Rightarrow> string \<Rightarrow> user option" where
  "getUserForSession rows sessionName = getUserByUsername rows sessionName"

text \<open>
  \<^verbatim>\<open>sendWebhookWithAuth\<close>: the headers are \<^verbatim>\<open>Content-Type\<close> followed by what
  \<^verbatim>\<open>getWebhookAuthHeaders\<close> returned; whatever \<^verbatim>\<open>axios.post\<close> throws is caught and logged.
\<close>

definition sendWebhookWithAuth :: "env \<Rightarrow> string \<Rightarrow> post_body \<Rightarrow> user option \<Rightarrow> world \<Rightarrow> world" where
  "sendWebhookWithAuth e target b uo w =
     (case getWebhookAuthHeaders e uo w of
        (authHeaders, w1) \<Rightarrow>
          snd (axios_post e
                 \<lparr>url = target, body = b,
                  headers = (''Content-Type'', ''application/json'') # authHeaders\<rparr> w1))"

definition onMessageReceived :: "env \<Rightarrow> MessageReceived \<Rightarrow> world \<Rightarrow> world" where
  "onMessageReceived e m w =
     (if fromMe (key m) = Some True
         \<or> (case remoteJid (key m) of None \<Rightarrow> False | Some jid \<Rightarrow> includes_str jid ''broadcast'')
      then w
      else (case getUserForSession (users w) (sessionId m) of
              None \<Rightarrow> w
            | Some u \<Rightarrow>
                (case callback_url u of
                   None \<Rightarrow> w
                 | Some callbackUrl \<Rightarrow>
                     if callbackUrl = [] then w
                     else (let w1 = sendWebhookWithAuth e callbackUrl (message_event m) (Some u) w
                           in case WEBHOOK_BASE_URL e of
                                None \<Rightarrow> w1
                              | Some legacy \<Rightarrow>
                                  if legacy = [] then w1
                                  else sendWebhookWithAuth e legacy (message_event m) None w1))))"

definition sendSessionWebhook :: "env \<Rightarrow> string \<Rightarrow> string \<Rightarrow> world \<Rightarrow> world" where
  "sendSessionWebhook e sessionName status w =
     (case getUserForSession (users w) sessionName of
        None \<Rightarrow> w
      | Some u \<Rightarrow>
          (case callback_url u of
             None \<Rightarrow> w
           | Some callbackUrl \<Rightarrow>
               if callbackUrl = [] then w
               else (let w1 = sendWebhookWithAuth e (callbackUrl @ ''/session'')
                                (SessionEvent sessionName status) (Some u) w
                     in case WEBHOOK_BASE_URL e of
                          None \<Rightarrow> w1
                        | Some legacy \<Rightarrow>
                            if legacy = [] then w1
                            else sendWebhookWithAuth e (legacy @ ''/session'')
                                   (SessionEvent sessionName status) None w1)))"

section \<open>The handler of \<^verbatim>\<open>PUT /dashboard/webhook-auth\<close> (controllers/dashboard)\<close>

text \<open>
  The payload after validation against \<^verbatim>\<open>updateWebhookAuthSchema\<close>: the type is required,
  every other property may be absent (\<open>None\<close>), \<^verbatim>\<open>null\<close> (\<open>Some None\<close>) or a string.
\<close>

record webhook_auth_payload =
  p_webhook_auth_type :: string
  p_webhook_auth_username :: "string option option"
  p_webhook_auth_password :: "string option option"
  p_webhook_auth_token_url :: "string option option"
  p_webhook_auth_token :: "string option option"
  p_webhook_oauth_format :: "string option option"

datatype http_exception = HTTPException nat string

definition put_webhook_auth ::
  "user \<Rightarrow> webhook_auth_payload \<Rightarrow> user list \<Rightarrow> http_exception + user list" where
  "put_webhook_auth u payload rows =
     (if is_admin u = 1
      then Inl (HTTPException 400 ''Admin users cannot configure webhook authentication'')
      else Inr (updateUserWebhookAuth (user_id u)
                  \<lparr>cfg_webhook_auth_type = Some (Some (p_webhook_auth_type payload)),
                   cfg_webhook_auth_username = p_webhook_auth_username payload,
                   cfg_webhook_auth_password = p_webhook_auth_password payload,
                   cfg_webhook_auth_token_url = p_webhook_auth_token_url payload,
                   cfg_webhook_auth_token =
                     (case p_webhook_auth_token payload of None \<Rightarrow> Some None | Some v \<Rightarrow> Some v),
                   cfg_webhook_auth_token_expiration = Some None,
                   cfg_webhook_oauth_format = p_webhook_oauth_format payload\<rparr>
                  rows))"

section \<open>Concrete tenants, events and environments\<close>

text \<open>
  The inputs at which the theorems below are evaluated: the tenant \<open>alice\<close> with a callback
  URL and OAuth credentials, a text message for her session, and an environment whose
  remote end answers every request in the same way while the clock stands at 1000000 ms.
\<close>

definition alice :: user where
  "alice =
     \<lparr>user_id = 1, username = ''alice'', password = ''hash'', is_admin = 0,
      session_name = None, callback_url = Some ''https://x/hook'',
      webhook_auth_type = Some ''oauth'', webhook_auth_username = Some ''client'',
      webhook_auth_password = Some ''secret'',
      webhook_auth_token_url = Some ''https://x/token'',
      webhook_auth_token = None, webhook_auth_token_expiration = None,
      webhook_oauth_format = None, created_at = ''2024-01-01 00:00:00''\<rparr>"

definition hello :: MessageReceived where
  "hello =
     \<lparr>sessionId = ''alice'',
      key = \<lparr>fromMe = Some False, remoteJid = Some ''628123@s.whatsapp.net'',
             key_id = Some ''MSG1''\<rparr>,
      message = Some \<lparr>conversation = Some ''hello'', extendedTextMessage_text = None,
                      imageMessage_caption = None, videoMessage_caption = None,
                      documentMessage_caption = None, contactMessage_displayName = None,
                      locationMessage_comment = None, liveLocationMessage_caption = None\<rparr>\<rparr>"

definition fixed_env :: "http_result \<Rightarrow> string option \<Rightarrow> env" where
  "fixed_env r legacy =
     \<lparr>respond = (\<lambda>k req. r), clock = (\<lambda>k. 1000000), WEBHOOK_BASE_URL = legacy,
      coerce_number = (\<lambda>v. None), coerce_string = (\<lambda>v. []), bind_text = (\<lambda>v. None)\<rparr>"

definition start :: "user list \<Rightarrow> world" where
  "start rows = \<lparr>users = rows, posts = [], ticks = 0\<rparr>"

text \<open>
  The same tenant with a token in the cache, and a request to \<^verbatim>\<open>PUT /webhook-auth\<close> that
  switches her to a static bearer token.
\<close>

definition alice_cached :: user where
  "alice_cached = alice\<lparr>webhook_auth_token := Some ''old-token'',
                          webhook_auth_token_expiration := Some 4600000\<rparr>"

definition to_bearer :: webhook_auth_payload where
  "to_bearer =
     \<lparr>p_webhook_auth_type = ''bearer'', p_webhook_auth_username = None,
      p_webhook_auth_password = None, p_webhook_auth_token_url = None,
      p_webhook_auth_token = Some (Some ''static-token''), p_webhook_oauth_format = None\<rparr>"

section \<open>Vocabulary for the frame of token acquisition\<close>

text \<open>
  Two states of the table agree up to the token cache of the tenant with id \<open>uid\<close>: the
  rows correspond one to one, a row of another tenant is the same, and a row of that tenant
  is the same once its cached token and expiration are put back.
\<close>

definition cache_frame :: "int \<Rightarrow> user list \<Rightarrow> user list \<Rightarrow> bool" where
  "cache_frame uid rows rows' =
     list_all2 (\<lambda>r r'. if user_id r = uid
                       then r'\<lparr>webhook_auth_token := webhook_auth_token r,
                               webhook_auth_token_expiration := webhook_auth_token_expiration r\<rparr> = r
                       else r' = r) rows rows'"

section \<open>Further concrete environments\<close>

text \<open>
  Token endpoints that answer with a token valid for two hours, with a token whose
  \<^verbatim>\<open>expires_in\<close> is 0, with a refused connection, with a body of no accepted shape and with
  status 401; the tenant with a static bearer token; and an environment where the legacy
  webhook is configured and every connection is refused.
\<close>

definition ok_env :: env where
  "ok_env = fixed_env (Response 200 (JObj [(''access_token'', JStr ''new-token''), (''expires_in'', JNum 7200)])) None"

definition zero_env :: env where
  "zero_env = fixed_env (Response 200 (JObj [(''access_token'', JStr ''new-token''), (''expires_in'', JNum 0)])) None"

definition down_env :: env where
  "down_env = fixed_env (NetworkError ''connect ECONNREFUSED'') None"

definition odd_env :: env where
  "odd_env = fixed_env (Response 200 (JObj [(''jwt'', JStr ''abc'')])) None"

definition denied_env :: env where
  "denied_env = fixed_env (Response 401 (JObj [(''error'', JStr ''invalid_client'')])) None"

definition alice_bearer :: user where
  "alice_bearer = alice\<lparr>webhook_auth_type := Some ''bearer'',
                          webhook_auth_token := Some ''static-token''\<rparr>"

definition legacy_down_env :: env where
  "legacy_down_env = fixed_env (NetworkError ''connect ECONNREFUSED'') (Some ''https://g/hook'')"

section \<open>Properties of the QR challenge store\<close>

text \<open>
  C5, counterexample. The claim lets \<^verbatim>\<open>get\<close> return the challenge only while the
  elapsed time is strictly below the TTL and evicts once it is at least the TTL.
  \<^verbatim>\<open>getQR\<close> tests \<^verbatim>\<open>Date.now() - stored.timestamp > this.TTL\<close>: exactly 300000 ms
  after the store the entry is still returned and still in the map.
\<close>

theorem C5_getQR_at_TTL_counterexample:
  "(300000::int) - 0 \<ge> TTL \<and>
   getQR 300000 ''alice'' (storeQR 0 ''alice'' ''qr-payload'' Map.empty)
     = (Some ''qr-payload'', storeQR 0 ''alice'' ''qr-payload'' Map.empty)"
  by (simp add: getQR_def storeQR_def TTL_def)

text \<open>
  C5, amended. For every session name, challenge, earlier content of the store and
  clock readings \<open>t0\<close> (at the store) and \<open>now\<close> (at the read): \<^verbatim>\<open>getQR\<close> after
  \<^verbatim>\<open>storeQR\<close> returns that challenge, leaving the store as it is, exactly when the elapsed
  time \<open>now - t0\<close> is at most the TTL of 300000 ms; when the elapsed time exceeds the TTL it
  returns null and deletes the entry.
\<close>

theorem C5_getQR_after_storeQR:
  "getQR now s (storeQR t0 s q m) =
     (if now - t0 \<le> 300000
      then (Some q, storeQR t0 s q m)
      else (None, (storeQR t0 s q m)(s := None)))"
  by (simp add: getQR_def storeQR_def TTL_def)

theorem C5_getQR_after_storeQR_witness:
  "getQR 299999 ''alice'' (storeQR 0 ''alice'' ''qr-payload'' Map.empty)
     = (Some ''qr-payload'', storeQR 0 ''alice'' ''qr-payload'' Map.empty)
   \<and> fst (getQR 300001 ''alice'' (storeQR 0 ''alice'' ''qr-payload'' Map.empty)) = None
   \<and> snd (getQR 300001 ''alice'' (storeQR 0 ''alice'' ''qr-payload'' Map.empty)) ''alice'' = None"
  using C5_getQR_after_storeQR [of 299999 "''alice''" 0 "''qr-payload''" Map.empty]
        C5_getQR_after_storeQR [of 300001 "''alice''" 0 "''qr-payload''" Map.empty]
  by simp

section \<open>Properties of the auth-header resolver\<close>

lemma base64_user_pass: "base64 ''user:pass'' = ''dXNlcjpwYXNz''"
  by (simp add: base64.simps b64_char_def b64_alphabet_def)

text \<open>
  C7. \<^verbatim>\<open>getWebhookAuthHeaders\<close> is defined on every tenant configuration and, outside the
  \<^verbatim>\<open>oauth\<close> type, neither reads the clock nor issues a request nor writes to the table
  (the state is returned as it was). For an absent tenant, an absent (null or empty) type
  and the type \<^verbatim>\<open>none\<close> it returns no header. For \<^verbatim>\<open>basic\<close> it returns exactly
  \<^verbatim>\<open>Authorization: Basic base64(username:password)\<close> when username and password are both
  present (neither null nor empty), and no header when either is missing. For \<^verbatim>\<open>bearer\<close>
  it returns exactly \<^verbatim>\<open>Authorization: Bearer token\<close> when the static token is present, and
  no header otherwise.
\<close>

theorem C7_getWebhookAuthHeaders_by_type:
  "getWebhookAuthHeaders e None w = ([], w)
   \<and> (webhook_auth_type u = None \<or> webhook_auth_type u = Some [] \<or> webhook_auth_type u = Some ''none''
        \<longrightarrow> getWebhookAuthHeaders e (Some u) w = ([], w))
   \<and> (webhook_auth_type u = Some ''basic'' \<and> webhook_auth_username u = Some uname \<and> uname \<noteq> []
        \<and> webhook_auth_password u = Some pw \<and> pw \<noteq> []
        \<longrightarrow> getWebhookAuthHeaders e (Some u) w =
              ([(''Authorization'', ''Basic '' @ base64 (uname @ '':'' @ pw))], w))
   \<and> (webhook_auth_type u = Some ''basic''
        \<and> (\<not> truthy_str (webhook_auth_username u) \<or> \<not> truthy_str (webhook_auth_password u))
        \<longrightarrow> getWebhookAuthHeaders e (Some u) w = ([], w))
   \<and> (webhook_auth_type u = Some ''bearer'' \<and> webhook_auth_token u = Some tok \<and> tok \<noteq> []
        \<longrightarrow> getWebhookAuthHeaders e (Some u) w = ([(''Authorization'', ''Bearer '' @ tok)], w))
   \<and> (webhook_auth_type u = Some ''bearer'' \<and> \<not> truthy_str (webhook_auth_token u)
        \<longrightarrow> getWebhookAuthHeaders e (Some u) w = ([], w))"
proof (intro conjI)
  show "getWebhookAuthHeaders e None w = ([], w)"
    by (simp add: getWebhookAuthHeaders_def)
  show "webhook_auth_type u = None \<or> webhook_auth_type u = Some [] \<or> webhook_auth_type u = Some ''none''
        \<longrightarrow> getWebhookAuthHeaders e (Some u) w = ([], w)"
    by (auto simp: getWebhookAuthHeaders_def)
  show "webhook_auth_type u = Some ''basic'' \<and> webhook_auth_username u = Some uname \<and> uname \<noteq> []
        \<and> webhook_auth_password u = Some pw \<and> pw \<noteq> []
        \<longrightarrow> getWebhookAuthHeaders e (Some u) w =
              ([(''Authorization'', ''Basic '' @ base64 (uname @ '':'' @ pw))], w)"
    by (simp add: getWebhookAuthHeaders_def)
  show "webhook_auth_type u = Some ''basic''
        \<and> (\<not> truthy_str (webhook_auth_username u) \<or> \<not> truthy_str (webhook_auth_password u))
        \<longrightarrow> getWebhookAuthHeaders e (Some u) w = ([], w)"
    by (cases "webhook_auth_username u"; cases "webhook_auth_password u")
       (auto simp: getWebhookAuthHeaders_def)
  show "webhook_auth_type u = Some ''bearer'' \<and> webhook_auth_token u = Some tok \<and> tok \<noteq> []
        \<longrightarrow> getWebhookAuthHeaders e (Some u) w = ([(''Authorization'', ''Bearer '' @ tok)], w)"
    by (simp add: getWebhookAuthHeaders_def)
  show "webhook_auth_type u = Some ''bearer'' \<and> \<not> truthy_str (webhook_auth_token u)
        \<longrightarrow> getWebhookAuthHeaders e (Some u) w = ([], w)"
    by (cases "webhook_auth_token u") (auto simp: getWebhookAuthHeaders_def)
qed

theorem C7_getWebhookAuthHeaders_by_type_witness:
  "getWebhookAuthHeaders (fixed_env (NetworkError ''down'') None)
      (Some (alice\<lparr>webhook_auth_type := Some ''basic'', webhook_auth_username := Some ''user'',
                    webhook_auth_password := Some ''pass''\<rparr>)) (start [])
     = ([(''Authorization'', ''Basic dXNlcjpwYXNz'')], start [])
   \<and> getWebhookAuthHeaders (fixed_env (NetworkError ''down'') None)
      (Some (alice\<lparr>webhook_auth_type := Some ''bearer'', webhook_auth_token := Some ''static''\<rparr>)) (start [])
     = ([(''Authorization'', ''Bearer static'')], start [])"
  using C7_getWebhookAuthHeaders_by_type
          [of "fixed_env (NetworkError ''down'') None" "start []"
              "alice\<lparr>webhook_auth_type := Some ''basic'', webhook_auth_username := Some ''user'',
                     webhook_auth_password := Some ''pass''\<rparr>" "''user''" "''pass''" "''x''"]
        C7_getWebhookAuthHeaders_by_type
          [of "fixed_env (NetworkError ''down'') None" "start []"
              "alice\<lparr>webhook_auth_type := Some ''bearer'', webhook_auth_token := Some ''static''\<rparr>"
              "''u''" "''p''" "''static''"]
        base64_user_pass
  by simp

section \<open>Properties of the dispatcher\<close>

lemma includes_status_broadcast: "includes_str ''status@broadcast'' ''broadcast''"
  by simp

text \<open>
  C9. For every message that is self-sent (\<^verbatim>\<open>key.fromMe\<close> is true) or whose
  \<^verbatim>\<open>key.remoteJid\<close> contains \<^verbatim>\<open>broadcast\<close>, the handler returns at once: the state is
  unchanged, so no request goes out, neither to the tenant's callback nor to the legacy
  webhook, whatever the tenant and the environment are.
\<close>

theorem C9_onMessageReceived_ignores_own_and_broadcast:
  "fromMe (key m) = Some True
     \<or> (\<exists>jid. remoteJid (key m) = Some jid \<and> includes_str jid ''broadcast'')
   \<Longrightarrow> onMessageReceived e m w = w"
  by (auto simp: onMessageReceived_def)

theorem C9_onMessageReceived_ignores_own_and_broadcast_witness:
  "posts (onMessageReceived (fixed_env (Response 200 JNull) (Some ''https://g/hook''))
            (hello\<lparr>key := (key hello)\<lparr>fromMe := Some True\<rparr>\<rparr>) (start [alice])) = []
   \<and> posts (onMessageReceived (fixed_env (Response 200 JNull) (Some ''https://g/hook''))
            (hello\<lparr>key := (key hello)\<lparr>remoteJid := Some ''status@broadcast''\<rparr>\<rparr>) (start [alice])) = []"
  using C9_onMessageReceived_ignores_own_and_broadcast
          [of "hello\<lparr>key := (key hello)\<lparr>fromMe := Some True\<rparr>\<rparr>"
              "fixed_env (Response 200 JNull) (Some ''https://g/hook'')" "start [alice]"]
        C9_onMessageReceived_ignores_own_and_broadcast
          [of "hello\<lparr>key := (key hello)\<lparr>remoteJid := Some ''status@broadcast''\<rparr>\<rparr>"
              "fixed_env (Response 200 JNull) (Some ''https://g/hook'')" "start [alice]"]
        includes_status_broadcast
  by (simp add: start_def)

text \<open>
  C1, the code at the failing input. With the legacy webhook configured
  (\<^verbatim>\<open>WEBHOOK_BASE_URL\<close> is \<^verbatim>\<open>https://g/hook\<close>), a text message that is neither self-sent nor
  a broadcast, for a session whose tenant has no callback URL or for a session with no tenant
  at all, and likewise a session-status event for such a session, produce no request: the
  handlers return at \<^verbatim>\<open>if (!callbackUrl)\<close>, before the delivery to the legacy webhook.
\<close>

theorem C1_no_callback_no_legacy_delivery:
  "WEBHOOK_BASE_URL (fixed_env (Response 200 JNull) (Some ''https://g/hook'')) = Some ''https://g/hook''
   \<and> posts (onMessageReceived (fixed_env (Response 200 JNull) (Some ''https://g/hook'')) hello
              (start [alice\<lparr>callback_url := None\<rparr>])) = []
   \<and> posts (onMessageReceived (fixed_env (Response 200 JNull) (Some ''https://g/hook'')) hello
              (start [])) = []
   \<and> posts (sendSessionWebhook (fixed_env (Response 200 JNull) (Some ''https://g/hook'')) ''alice''
              ''connected'' (start [alice\<lparr>callback_url := None\<rparr>])) = []"
  by (simp add: onMessageReceived_def sendSessionWebhook_def getUserForSession_def
        getUserByUsername_def fixed_env_def hello_def start_def alice_def)

section \<open>Properties of the update of the webhook authentication\<close>

lemma set_columns_token:
  "webhook_auth_token (set_columns c u) =
     (case cfg_webhook_auth_token c of None \<Rightarrow> webhook_auth_token u | Some v \<Rightarrow> v)"
  by (simp add: set_columns_def Let_def split: option.splits)

lemma set_columns_expiration:
  "webhook_auth_token_expiration (set_columns c u) =
     (case cfg_webhook_auth_token_expiration c of
        None \<Rightarrow> webhook_auth_token_expiration u | Some v \<Rightarrow> v)"
  by (simp add: set_columns_def Let_def split: option.splits)

lemma set_columns_type:
  "webhook_auth_type (set_columns c u) =
     (case cfg_webhook_auth_type c of None \<Rightarrow> webhook_auth_type u | Some v \<Rightarrow> v)"
  by (simp add: set_columns_def Let_def split: option.splits)

text \<open>
  C4, counterexample. The claim has every update reset the cached token to null. A request
  that carries \<^verbatim>\<open>webhook_auth_token\<close> (the static token of the \<^verbatim>\<open>bearer\<close> type) leaves
  that token in the column: the handler first sets \<^verbatim>\<open>updates.webhook_auth_token = null\<close> and
  then overwrites it with the payload's value. Switching \<open>alice_cached\<close> from \<^verbatim>\<open>oauth\<close> to
  \<^verbatim>\<open>bearer\<close> with a static token leaves the column non-null.
\<close>

theorem C4_static_token_stored_counterexample:
  "put_webhook_auth alice_cached to_bearer [alice_cached]
     = Inr [alice_cached\<lparr>webhook_auth_type := Some ''bearer'',
                          webhook_auth_token := Some ''static-token'',
                          webhook_auth_token_expiration := None\<rparr>]
   \<and> webhook_auth_token (alice_cached\<lparr>webhook_auth_type := Some ''bearer'',
                          webhook_auth_token := Some ''static-token'',
                          webhook_auth_token_expiration := None\<rparr>) \<noteq> None"
  by (simp add: put_webhook_auth_def updateUserWebhookAuth_def set_columns_def
        alice_cached_def alice_def to_bearer_def)

text \<open>
  C4, amended. For every tenant that is not the admin, every request to
  \<^verbatim>\<open>PUT /webhook-auth\<close> succeeds and, in each row of that tenant, sets the expiration to
  null and the type to the requested one, and sets the token to null unless the request itself
  carries \<^verbatim>\<open>webhook_auth_token\<close>, in which case the column holds the value of the request
  (null or the new static token). In either case the token cached before does not survive,
  save when the request supplies it again. Rows of other tenants are unchanged.
\<close>

theorem C4_put_webhook_auth_resets_cache:
  "is_admin u \<noteq> 1 \<Longrightarrow>
   \<exists>rows'. put_webhook_auth u p rows = Inr rows'
     \<and> list_all2 (\<lambda>r r'. if user_id r = user_id u
                          then webhook_auth_token_expiration r' = None
                             \<and> webhook_auth_token r' =
                                 (case p_webhook_auth_token p of None \<Rightarrow> None | Some v \<Rightarrow> v)
                             \<and> webhook_auth_type r' = Some (p_webhook_auth_type p)
                          else r' = r) rows rows'"
  by (simp add: put_webhook_auth_def updateUserWebhookAuth_def
        list_all2_map2 list_all2_same set_columns_token set_columns_expiration set_columns_type
        split: option.splits)

theorem C4_put_webhook_auth_resets_cache_witness:
  "is_admin alice_cached \<noteq> 1
   \<and> (\<exists>rows'. put_webhook_auth alice_cached to_bearer [alice_cached] = Inr rows'
         \<and> list_all2 (\<lambda>r r'. webhook_auth_token_expiration r' = None
                             \<and> webhook_auth_token r' = Some ''static-token''
                             \<and> webhook_auth_type r' = Some ''bearer'') [alice_cached] rows')"
proof -
  have h: "is_admin alice_cached \<noteq> 1"
    by (simp add: alice_cached_def alice_def)
  have p: "p_webhook_auth_token to_bearer = Some (Some ''static-token'')"
          "p_webhook_auth_type to_bearer = ''bearer''"
    by (simp_all add: to_bearer_def)
  show ?thesis
    using h C4_put_webhook_auth_resets_cache [OF h, of to_bearer "[alice_cached]"] by (auto simp: p list_all2_Cons1)
qed

section \<open>Properties of the token fetch\<close>

lemma field_opt_field: "d \<noteq> JNull \<Longrightarrow> field d name = Inr (opt_field (Some d) name)"
  by (cases d) simp_all

lemma fetch_2xx:
  "respond e (length (posts w)) (token_request uname pw tokenUrl format) = Response st d \<Longrightarrow>
   200 \<le> st \<Longrightarrow> st < 300 \<Longrightarrow>
   fetchOAuthToken e uname pw tokenUrl format w =
     (handle_response d, w\<lparr>posts := posts w @ [token_request uname pw tokenUrl format]\<rparr>)"
  by (simp add: fetchOAuthToken_def axios_post_def Let_def)

text \<open>
  C6. When the token endpoint answers the request with a 2xx status and the body \<open>d\<close>,
  \<^verbatim>\<open>fetchOAuthToken\<close> reads \<open>d\<close> in this order. A truthy top-level \<^verbatim>\<open>access_token\<close>: the
  body itself is the result (its \<^verbatim>\<open>expires_in\<close> is the property of that name). Otherwise a
  truthy top-level \<^verbatim>\<open>token\<close>: it becomes \<^verbatim>\<open>access_token\<close>, with
  \<^verbatim>\<open>expires_in || expiresIn\<close>. Otherwise a truthy \<^verbatim>\<open>success\<close> with a truthy
  \<^verbatim>\<open>data.token\<close>: the envelope is unwrapped in the same way. Otherwise the fetch fails: with
  the error ``unexpected token response format'', or, for the body \<^verbatim>\<open>null\<close>, with the
  \<^verbatim>\<open>TypeError\<close> of reading a property of \<^verbatim>\<open>null\<close>. The witness is the body
  \<^verbatim>\<open>{"token": "abc", "expiresIn": 120}\<close>.
\<close>

theorem C6_fetchOAuthToken_response_shapes:
  assumes "respond e (length (posts w)) (token_request uname pw tokenUrl format) = Response st d"
    and "200 \<le> st" and "st < 300"
  shows "(truthy (opt_field (Some d) ''access_token'') \<longrightarrow>
            fst (fetchOAuthToken e uname pw tokenUrl format w) =
              Inr \<lparr>access_token = opt_field (Some d) ''access_token'',
                   expires_in = opt_field (Some d) ''expires_in''\<rparr>)
       \<and> (\<not> truthy (opt_field (Some d) ''access_token'') \<and> truthy (opt_field (Some d) ''token'') \<longrightarrow>
            fst (fetchOAuthToken e uname pw tokenUrl format w) =
              Inr \<lparr>access_token = opt_field (Some d) ''token'',
                   expires_in = (if truthy (opt_field (Some d) ''expires_in'')
                                 then opt_field (Some d) ''expires_in''
                                 else opt_field (Some d) ''expiresIn'')\<rparr>)
       \<and> (\<not> truthy (opt_field (Some d) ''access_token'') \<and> \<not> truthy (opt_field (Some d) ''token'')
          \<and> truthy (opt_field (Some d) ''success'')
          \<and> truthy (opt_field (opt_field (Some d) ''data'') ''token'') \<longrightarrow>
            fst (fetchOAuthToken e uname pw tokenUrl format w) =
              Inr \<lparr>access_token = opt_field (opt_field (Some d) ''data'') ''token'',
                   expires_in = (if truthy (opt_field (opt_field (Some d) ''data'') ''expires_in'')
                                 then opt_field (opt_field (Some d) ''data'') ''expires_in''
                                 else opt_field (opt_field (Some d) ''data'') ''expiresIn'')\<rparr>)
       \<and> (\<not> truthy (opt_field (Some d) ''access_token'') \<and> \<not> truthy (opt_field (Some d) ''token'')
          \<and> \<not> (truthy (opt_field (Some d) ''success'')
                \<and> truthy (opt_field (opt_field (Some d) ''data'') ''token'')) \<longrightarrow>
            fst (fetchOAuthToken e uname pw tokenUrl format w) =
              Inl (if d = JNull then TypeError else UnexpectedFormat d))"
proof (cases "d = JNull")
  case True
  then show ?thesis
    using assms by (simp add: fetch_2xx handle_response_def)
next
  case False
  then show ?thesis
    using assms by (simp add: fetch_2xx handle_response_def field_opt_field js_or_def)
qed

theorem C6_fetchOAuthToken_response_shapes_witness:
  "fst (fetchOAuthToken (fixed_env (Response 200 (JObj [(''token'', JStr ''abc''), (''expiresIn'', JNum 120)])) None)
          ''client'' ''secret'' ''https://x/token'' ''oauth2'' (start []))
     = Inr \<lparr>access_token = Some (JStr ''abc''), expires_in = Some (JNum 120)\<rparr>"
  using C6_fetchOAuthToken_response_shapes [of "fixed_env (Response 200 (JObj [(''token'', JStr ''abc''), (''expiresIn'', JNum 120)])) None"
               "start []" "''client''" "''secret''" "''https://x/token''" "''oauth2''" 200
               "JObj [(''token'', JStr ''abc''), (''expiresIn'', JNum 120)]"]
  by (simp add: fixed_env_def)

section \<open>Properties of the OAuth token acquisition\<close>

lemma cache_frame_refl: "cache_frame uid rows rows"
  by (simp add: cache_frame_def list_all2_same)

lemma set_columns_cache:
  "set_columns (no_updates\<lparr>cfg_webhook_auth_token := t, cfg_webhook_auth_token_expiration := x\<rparr>) r =
     r\<lparr>webhook_auth_token := (case t of None \<Rightarrow> webhook_auth_token r | Some v \<Rightarrow> v),
       webhook_auth_token_expiration :=
         (case x of None \<Rightarrow> webhook_auth_token_expiration r | Some v \<Rightarrow> v)\<rparr>"
  by (simp add: set_columns_def no_updates_def Let_def split: option.splits)

lemma cache_frame_update:
  "cache_frame uid rows
     (updateUserWebhookAuth uid
        (no_updates\<lparr>cfg_webhook_auth_token := t, cfg_webhook_auth_token_expiration := x\<rparr>) rows)"
  by (simp add: cache_frame_def updateUserWebhookAuth_def list_all2_map2 list_all2_same
        set_columns_cache)

lemma cache_frame_update_exp:
  "cache_frame uid rows
     (updateUserWebhookAuth uid
        (no_updates\<lparr>cfg_webhook_auth_token_expiration := x\<rparr>) rows)"
  using cache_frame_update [where t=None and x=x and uid=uid and rows=rows] by (simp add: no_updates_def)

lemma fetch_world:
  "snd (fetchOAuthToken e un pw turl fmt w) = w\<lparr>posts := posts w @ [token_request un pw turl fmt]\<rparr>"
  by (simp add: fetchOAuthToken_def axios_post_def Let_def
        split: http_result.splits js_error.splits option.splits sum.splits)

lemma store_token_posts: "posts (snd (store_token e u r w)) = posts w"
  by (simp add: store_token_def Date_now_def split: option.splits)

lemma store_token_ticks: "ticks (snd (store_token e u r w)) = Suc (ticks w)"
  by (simp add: store_token_def Date_now_def split: option.splits)

lemma store_token_frame: "cache_frame (user_id u) (users w) (users (snd (store_token e u r w)))"
  by (simp add: store_token_def Date_now_def cache_frame_refl cache_frame_update
        cache_frame_update_exp split: option.splits)

lemma renew_posts:
  "posts (snd (renew_token e u un pw turl w)) = posts w @ [token_request un pw turl (oauth_format u)]"
  using fetch_world [of e un pw turl "oauth_format u" w]
  by (cases "fetchOAuthToken e un pw turl (oauth_format u) w")
     (auto simp: renew_token_def store_token_posts split: sum.splits)

lemma renew_frame: "cache_frame (user_id u) (users w) (users (snd (renew_token e u un pw turl w)))"
  using fetch_world [of e un pw turl "oauth_format u" w]
        store_token_frame [of u "w\<lparr>posts := posts w @ [token_request un pw turl (oauth_format u)]\<rparr>" e]
  by (cases "fetchOAuthToken e un pw turl (oauth_format u) w")
     (auto simp: renew_token_def cache_frame_refl split: sum.splits)

lemma gvt_cases:
  "getValidOAuthToken e u w = (Some JNull, w)
   \<or> (\<exists>tok. getValidOAuthToken e u w = (Some (JStr tok), w\<lparr>ticks := Suc (ticks w)\<rparr>))
   \<or> (\<exists>un pw turl. webhook_auth_username u = Some un \<and> webhook_auth_password u = Some pw
         \<and> webhook_auth_token_url u = Some turl
         \<and> (getValidOAuthToken e u w = renew_token e u un pw turl w
            \<or> getValidOAuthToken e u w = renew_token e u un pw turl (w\<lparr>ticks := Suc (ticks w)\<rparr>)))"
  by (simp add: getValidOAuthToken_def isTokenExpired_def Date_now_def
        split: option.splits prod.splits bool.splits)

lemmas eval_defs =
  getWebhookAuthHeaders_def getValidOAuthToken_def isTokenExpired_def Date_now_def
  renew_token_def store_token_def fetchOAuthToken_def axios_post_def token_request_def
  oauth_format_def handle_response_def js_or_def toNumber_def toString_def bindText_def
  valid_time_def bufferTime_def updateUserWebhookAuth_def set_columns_def no_updates_def
  alice_def alice_cached_def fixed_env_def start_def Let_def

lemma renew_fail:
  "(case respond e (length (posts w)) (token_request un pw turl (oauth_format u)) of
      NetworkError m \<Rightarrow> True
    | Response st d \<Rightarrow> \<not> (200 \<le> st \<and> st < 300) \<or> isl (handle_response d)) \<Longrightarrow>
   renew_token e u un pw turl w =
     (Some JNull, w\<lparr>posts := posts w @ [token_request un pw turl (oauth_format u)]\<rparr>)"
  by (auto simp: renew_token_def fetchOAuthToken_def axios_post_def Let_def isl_def
        split: http_result.splits option.splits)

lemma gvt_hit:
  "webhook_auth_username u = Some un \<Longrightarrow> un \<noteq> [] \<Longrightarrow>
   webhook_auth_password u = Some pw \<Longrightarrow> pw \<noteq> [] \<Longrightarrow>
   webhook_auth_token_url u = Some turl \<Longrightarrow> turl \<noteq> [] \<Longrightarrow>
   webhook_auth_token u = Some tok \<Longrightarrow> tok \<noteq> [] \<Longrightarrow>
   webhook_auth_token_expiration u = Some x \<Longrightarrow> clock e (ticks w) \<le> x - bufferTime \<Longrightarrow>
   getValidOAuthToken e u w = (Some (JStr tok), w\<lparr>ticks := Suc (ticks w)\<rparr>)"
  by (simp add: getValidOAuthToken_def isTokenExpired_def Date_now_def)

lemma gvt_stale:
  "webhook_auth_username u = Some un \<Longrightarrow> un \<noteq> [] \<Longrightarrow>
   webhook_auth_password u = Some pw \<Longrightarrow> pw \<noteq> [] \<Longrightarrow>
   webhook_auth_token_url u = Some turl \<Longrightarrow> turl \<noteq> [] \<Longrightarrow>
   \<not> truthy_str (webhook_auth_token u) \<or> webhook_auth_token_expiration u = None
     \<or> (\<exists>x. webhook_auth_token_expiration u = Some x \<and> x - bufferTime < clock e (ticks w)) \<Longrightarrow>
   getValidOAuthToken e u w = renew_token e u un pw turl w
   \<or> getValidOAuthToken e u w = renew_token e u un pw turl (w\<lparr>ticks := Suc (ticks w)\<rparr>)"
  by (cases "webhook_auth_token u"; cases "webhook_auth_token_expiration u")
     (auto simp: getValidOAuthToken_def isTokenExpired_def Date_now_def)

lemma renew_success:
  assumes "respond e (length (posts w)) (token_request un pw turl (oauth_format u)) = Response st d"
    and "200 \<le> st" and "st < 300"
    and "handle_response d = Inr \<lparr>access_token = Some (JStr a), expires_in = ex\<rparr>"
    and "ex = Some (JNum n) \<and> n \<noteq> 0 \<or> \<not> truthy ex \<and> n = 3600"
    and "renew_token e u un pw turl w = (v, w')"
  shows "ticks w' = Suc (ticks w)
       \<and> posts w' = posts w @ [token_request un pw turl (oauth_format u)]
       \<and> (valid_time (clock e (ticks w) + n * 1000) \<longrightarrow>
            v = Some (JStr a)
            \<and> users w' = updateUserWebhookAuth (user_id u)
                 (no_updates\<lparr>cfg_webhook_auth_token := Some (Some a),
                    cfg_webhook_auth_token_expiration := Some (Some (clock e (ticks w) + n * 1000))\<rparr>)
                 (users w))"
  using assms
  by (auto simp: renew_token_def fetchOAuthToken_def axios_post_def Let_def store_token_def
        Date_now_def js_or_def toNumber_def bindText_def split: option.splits if_splits)

lemma ev_ok:
  "getValidOAuthToken ok_env alice (start [alice]) =
     (Some (JStr ''new-token''),
      \<lparr>users = [alice\<lparr>webhook_auth_token := Some ''new-token'',
                       webhook_auth_token_expiration := Some 8200000\<rparr>],
       posts = [token_request ''client'' ''secret'' ''https://x/token'' ''oauth2''],
       ticks = 1\<rparr>)"
  by (simp add: ok_env_def eval_defs)

lemma alice_creds:
  "webhook_auth_username alice = Some ''client''" "''client'' \<noteq> []"
  "webhook_auth_password alice = Some ''secret''" "''secret'' \<noteq> []"
  "webhook_auth_token_url alice = Some ''https://x/token''" "''https://x/token'' \<noteq> []"
  by (simp_all add: alice_def)

lemma alice_cached_creds:
  "webhook_auth_username alice_cached = Some ''client''" "''client'' \<noteq> []"
  "webhook_auth_password alice_cached = Some ''secret''" "''secret'' \<noteq> []"
  "webhook_auth_token_url alice_cached = Some ''https://x/token''" "''https://x/token'' \<noteq> []"
  by (simp_all add: alice_cached_def alice_def)

lemma ev_down:
  "getWebhookAuthHeaders down_env (Some alice) (start [alice]) =
     (fst (getWebhookAuthHeaders down_env (Some alice) (start [alice])),
      \<lparr>users = [alice],
       posts = [token_request ''client'' ''secret'' ''https://x/token'' ''oauth2''],
       ticks = 0\<rparr>)"
  by (simp add: down_env_def eval_defs)

lemma ev_odd:
  "getWebhookAuthHeaders odd_env (Some alice) (start [alice]) =
     (fst (getWebhookAuthHeaders odd_env (Some alice) (start [alice])),
      \<lparr>users = [alice],
       posts = [token_request ''client'' ''secret'' ''https://x/token'' ''oauth2''],
       ticks = 0\<rparr>)"
  by (simp add: odd_env_def eval_defs)

lemma ev_denied:
  "getWebhookAuthHeaders denied_env (Some alice) (start [alice]) =
     (fst (getWebhookAuthHeaders denied_env (Some alice) (start [alice])),
      \<lparr>users = [alice],
       posts = [token_request ''client'' ''secret'' ''https://x/token'' ''oauth2''],
       ticks = 0\<rparr>)"
  by (simp add: denied_env_def eval_defs)

text \<open>
  C10. Token acquisition changes at most the token cache of the tenant it runs for:
  whatever the environment answers, the table after \<^verbatim>\<open>getValidOAuthToken\<close> agrees with the
  table before up to the columns \<^verbatim>\<open>webhook_auth_token\<close> and
  \<^verbatim>\<open>webhook_auth_token_expiration\<close> of the rows with that tenant's id; every other column
  of those rows and every row of another tenant is unchanged, and no row is added or removed.
  On a cache hit (a cached token whose expiration minus the buffer has not passed) nothing
  is written and no request is issued.
\<close>

theorem C10_getValidOAuthToken_frame:
  "cache_frame (user_id u) (users w) (users (snd (getValidOAuthToken e u w)))
   \<and> (webhook_auth_token u = Some tok \<and> tok \<noteq> [] \<and> webhook_auth_token_expiration u = Some x
        \<and> clock e (ticks w) \<le> x - bufferTime
        \<longrightarrow> users (snd (getValidOAuthToken e u w)) = users w
            \<and> posts (snd (getValidOAuthToken e u w)) = posts w)"
proof (rule conjI)
  show "cache_frame (user_id u) (users w) (users (snd (getValidOAuthToken e u w)))"
    using gvt_cases [of e u w] renew_frame [of u w e]
          renew_frame [of u "w\<lparr>ticks := Suc (ticks w)\<rparr>" e]
    by (auto simp: cache_frame_refl)
  show "webhook_auth_token u = Some tok \<and> tok \<noteq> [] \<and> webhook_auth_token_expiration u = Some x
        \<and> clock e (ticks w) \<le> x - bufferTime
        \<longrightarrow> users (snd (getValidOAuthToken e u w)) = users w
            \<and> posts (snd (getValidOAuthToken e u w)) = posts w"
    by (simp add: getValidOAuthToken_def isTokenExpired_def Date_now_def
          split: option.splits)
qed

theorem C10_getValidOAuthToken_frame_witness:
  "cache_frame 1 [alice]
     [alice\<lparr>webhook_auth_token := Some ''new-token'',
             webhook_auth_token_expiration := Some 8200000\<rparr>]
   \<and> users (snd (getValidOAuthToken ok_env alice_cached (start [alice_cached]))) = [alice_cached]
   \<and> posts (snd (getValidOAuthToken ok_env alice_cached (start [alice_cached]))) = []"
proof -
  have hit: "webhook_auth_token alice_cached = Some ''old-token'' \<and> ''old-token'' \<noteq> []
      \<and> webhook_auth_token_expiration alice_cached = Some 4600000
      \<and> clock ok_env (ticks (start [alice_cached])) \<le> 4600000 - bufferTime"
    by (simp add: alice_cached_def alice_def ok_env_def fixed_env_def start_def bufferTime_def)
  from C10_getValidOAuthToken_frame [of alice "start [alice]" ok_env]
  have "cache_frame (user_id alice) (users (start [alice]))
          (users (snd (getValidOAuthToken ok_env alice (start [alice]))))"
    by (rule conjunct1)
  then have 1: "cache_frame 1 [alice]
     [alice\<lparr>webhook_auth_token := Some ''new-token'',
             webhook_auth_token_expiration := Some 8200000\<rparr>]"
    by (simp add: ev_ok) (simp add: start_def alice_def)
  from C10_getValidOAuthToken_frame [of alice_cached "start [alice_cached]" ok_env "''old-token''" 4600000] hit
  have "users (snd (getValidOAuthToken ok_env alice_cached (start [alice_cached])))
          = users (start [alice_cached])
        \<and> posts (snd (getValidOAuthToken ok_env alice_cached (start [alice_cached])))
          = posts (start [alice_cached])"
    by blast
  with 1 show ?thesis
    by (simp add: start_def)
qed

lemma send_posts:
  "getWebhookAuthHeaders e uo w = (auth, w1) \<Longrightarrow>
   posts (sendWebhookWithAuth e target b uo w) =
     posts w1 @ [\<lparr>url = target, body = b,
                  headers = (''Content-Type'', ''application/json'') # auth\<rparr>]"
  by (simp add: sendWebhookWithAuth_def axios_post_def Let_def split: http_result.splits)

text \<open>
  C3. For every tenant of type \<^verbatim>\<open>oauth\<close>: when \<^verbatim>\<open>getWebhookAuthHeaders\<close> issued a
  request \<open>r\<close> (which is then the token request) and the remote end failed it, by a network
  error, by a status outside 200..299 or by a 2xx body that matches none of the accepted
  shapes, the function returns the empty header set and leaves the table as it was. It
  returns a value in every case: every error of the acquisition is caught inside
  \<^verbatim>\<open>getValidOAuthToken\<close>. The delivery then proceeds unauthenticated:
  \<^verbatim>\<open>sendWebhookWithAuth\<close> for that tenant issues, after the failed token request, the
  webhook request to its target with the given body and the \<^verbatim>\<open>Content-Type\<close> header
  alone, and nothing else.
\<close>

theorem C3_oauth_failure_no_headers:
  assumes type: "webhook_auth_type u = Some ''oauth''"
    and run: "getWebhookAuthHeaders e (Some u) w = (hs, w')"
    and issued: "posts w' = posts w @ [r]"
    and failed: "case respond e (length (posts w)) r of
                   NetworkError m \<Rightarrow> True
                 | Response st d \<Rightarrow> \<not> (200 \<le> st \<and> st < 300) \<or> isl (handle_response d)"
  shows "hs = [] \<and> users w' = users w
       \<and> posts (sendWebhookWithAuth e target b (Some u) w) =
           posts w @ [r, \<lparr>url = target, body = b,
                           headers = [(''Content-Type'', ''application/json'')]\<rparr>]"
proof -
  obtain v w1 where g: "getValidOAuthToken e u w = (v, w1)"
    by (cases "getValidOAuthToken e u w")
  from type run g have w': "w' = w1" and hs: "\<not> truthy v \<longrightarrow> hs = []"
    by (auto simp: getWebhookAuthHeaders_def split: option.splits if_splits)
  from gvt_cases [of e u w] g issued w'
  obtain un pw turl w0 where w0: "w0 = w \<or> w0 = w\<lparr>ticks := Suc (ticks w)\<rparr>"
    and ren: "(v, w1) = renew_token e u un pw turl w0"
    by auto
  from w0 have p0: "posts w0 = posts w" and u0: "users w0 = users w" by auto
  from renew_posts [of e u un pw turl w0] ren issued w' p0
  have r: "r = token_request un pw turl (oauth_format u)"
    by (metis append1_eq_conv snd_conv)
  from renew_fail [of e w0 un pw turl u] failed r p0 ren
  have "v = Some JNull" and "w1 = w0\<lparr>posts := posts w0 @ [token_request un pw turl (oauth_format u)]\<rparr>"
    by auto
  with hs w' u0 have 1: "hs = []" and 2: "users w' = users w" by simp_all
  from send_posts [OF run, of target b] issued 1
  have 3: "posts (sendWebhookWithAuth e target b (Some u) w) =
           posts w @ [r, \<lparr>url = target, body = b,
                           headers = [(''Content-Type'', ''application/json'')]\<rparr>]"
    by simp
  from 1 2 3 show ?thesis by simp
qed

theorem C3_oauth_failure_no_headers_witness:
  "fst (getWebhookAuthHeaders down_env (Some alice) (start [alice])) = []
   \<and> fst (getWebhookAuthHeaders denied_env (Some alice) (start [alice])) = []
   \<and> fst (getWebhookAuthHeaders odd_env (Some alice) (start [alice])) = []
   \<and> posts (sendWebhookWithAuth down_env ''https://x/hook'' (message_event hello) (Some alice)
              (start [alice])) =
       [token_request ''client'' ''secret'' ''https://x/token'' ''oauth2'',
        \<lparr>url = ''https://x/hook'', body = message_event hello,
         headers = [(''Content-Type'', ''application/json'')]\<rparr>]
   \<and> posts (sendWebhookWithAuth odd_env ''https://x/hook'' (message_event hello) (Some alice)
              (start [alice])) =
       [token_request ''client'' ''secret'' ''https://x/token'' ''oauth2'',
        \<lparr>url = ''https://x/hook'', body = message_event hello,
         headers = [(''Content-Type'', ''application/json'')]\<rparr>]"
proof -
  have type: "webhook_auth_type alice = Some ''oauth''"
    by (simp add: alice_def)
  have issued: "posts \<lparr>users = [alice],
           posts = [token_request ''client'' ''secret'' ''https://x/token'' ''oauth2''],
           ticks = 0\<rparr>
        = posts (start [alice]) @ [token_request ''client'' ''secret'' ''https://x/token'' ''oauth2'']"
    by (simp add: start_def)
  have f1: "case respond down_env (length (posts (start [alice])))
                   (token_request ''client'' ''secret'' ''https://x/token'' ''oauth2'') of
              NetworkError m \<Rightarrow> True
            | Response st d \<Rightarrow> \<not> (200 \<le> st \<and> st < 300) \<or> isl (handle_response d)"
    by (simp add: down_env_def fixed_env_def)
  have f2: "case respond denied_env (length (posts (start [alice])))
                   (token_request ''client'' ''secret'' ''https://x/token'' ''oauth2'') of
              NetworkError m \<Rightarrow> True
            | Response st d \<Rightarrow> \<not> (200 \<le> st \<and> st < 300) \<or> isl (handle_response d)"
    by (simp add: denied_env_def fixed_env_def)
  have f3: "case respond odd_env (length (posts (start [alice])))
                   (token_request ''client'' ''secret'' ''https://x/token'' ''oauth2'') of
              NetworkError m \<Rightarrow> True
            | Response st d \<Rightarrow> \<not> (200 \<le> st \<and> st < 300) \<or> isl (handle_response d)"
    by (simp add: odd_env_def fixed_env_def handle_response_def)
  from C3_oauth_failure_no_headers [OF type ev_down issued f1, of "''https://x/hook''" "message_event hello"]
       C3_oauth_failure_no_headers [OF type ev_denied issued f2, of "''https://x/hook''" "message_event hello"]
       C3_oauth_failure_no_headers [OF type ev_odd issued f3, of "''https://x/hook''" "message_event hello"]
  show ?thesis by (simp add: start_def)
qed

text \<open>
  C2, counterexample. Two inputs on which the code departs from the claim. First, a token
  response with \<^verbatim>\<open>expires_in\<close> equal to 0: \<^verbatim>\<open>tokenResponse.expires_in || 3600\<close> takes the
  default, and the expiration stored is now plus 3600 seconds, not now plus 0 seconds.
  Second, a cached token whose expiration minus the five minutes of buffer is exactly now,
  hence not in the future: \<^verbatim>\<open>isTokenExpired\<close> tests
  \<^verbatim>\<open>expiration - now < bufferTime\<close>, which is false, and the cached token is returned
  without a request.
\<close>

theorem C2_zero_expiry_and_boundary_counterexample:
  "getValidOAuthToken zero_env alice (start [alice]) =
     (Some (JStr ''new-token''),
      \<lparr>users = [alice\<lparr>webhook_auth_token := Some ''new-token'',
                       webhook_auth_token_expiration := Some (1000000 + 3600 * 1000)\<rparr>],
       posts = [token_request ''client'' ''secret'' ''https://x/token'' ''oauth2''],
       ticks = 1\<rparr>)
   \<and> (1000000 + 3600 * 1000 :: int) \<noteq> 1000000 + 0 * 1000
   \<and> getValidOAuthToken zero_env (alice_cached\<lparr>webhook_auth_token_expiration := Some 1300000\<rparr>)
         (start [alice_cached\<lparr>webhook_auth_token_expiration := Some 1300000\<rparr>]) =
     (Some (JStr ''old-token''),
      \<lparr>users = [alice_cached\<lparr>webhook_auth_token_expiration := Some 1300000\<rparr>],
       posts = [], ticks = 1\<rparr>)
   \<and> \<not> (clock zero_env 0 < 1300000 - 5 * 60 * 1000)"
  by (simp add: zero_env_def eval_defs)

text \<open>
  C2, amended. For every tenant whose username, password and token URL are all present
  (neither null nor empty). If a token is cached (not null, not empty) and its expiration
  minus the buffer of 300000 ms has not passed (now is at most expiration minus buffer), the
  cached token is returned, no request is issued and the table is unchanged. Otherwise (no
  cached token, no expiration, or expiration minus buffer before now) the token request is
  issued; when it is answered with a 2xx status and a body of an accepted shape whose token
  is a string, the token is returned and stored together with the expiration now plus
  \<open>n\<close> seconds, where now is the clock reading at the store, \<open>n\<close> is \<^verbatim>\<open>expires_in\<close>
  when that is a number other than 0, and 3600 when it is absent or falsy (0 included),
  provided that instant is a valid date (at most 8.64e15 ms in magnitude).
\<close>

theorem C2_getValidOAuthToken_cache_or_refresh:
  assumes creds: "webhook_auth_username u = Some un" "un \<noteq> []"
      "webhook_auth_password u = Some pw" "pw \<noteq> []"
      "webhook_auth_token_url u = Some turl" "turl \<noteq> []"
    and run: "getValidOAuthToken e u w = (v, w')"
  shows "(webhook_auth_token u = Some tok \<and> tok \<noteq> []
          \<and> webhook_auth_token_expiration u = Some x \<and> clock e (ticks w) \<le> x - bufferTime
          \<longrightarrow> v = Some (JStr tok) \<and> posts w' = posts w \<and> users w' = users w)
       \<and> ((\<not> truthy_str (webhook_auth_token u) \<or> webhook_auth_token_expiration u = None
            \<or> (\<exists>y. webhook_auth_token_expiration u = Some y \<and> y - bufferTime < clock e (ticks w)))
          \<and> respond e (length (posts w)) (token_request un pw turl (oauth_format u)) = Response st d
          \<and> 200 \<le> st \<and> st < 300
          \<and> handle_response d = Inr \<lparr>access_token = Some (JStr a), expires_in = ex\<rparr>
          \<and> (ex = Some (JNum n) \<and> n \<noteq> 0 \<or> \<not> truthy ex \<and> n = 3600)
          \<and> valid_time (clock e (ticks w' - 1) + n * 1000)
          \<longrightarrow> v = Some (JStr a)
              \<and> posts w' = posts w @ [token_request un pw turl (oauth_format u)]
              \<and> users w' = updateUserWebhookAuth (user_id u)
                   (no_updates\<lparr>cfg_webhook_auth_token := Some (Some a),
                      cfg_webhook_auth_token_expiration :=
                        Some (Some (clock e (ticks w' - 1) + n * 1000))\<rparr>)
                   (users w))"
proof (intro conjI impI)
  assume "webhook_auth_token u = Some tok \<and> tok \<noteq> []
          \<and> webhook_auth_token_expiration u = Some x \<and> clock e (ticks w) \<le> x - bufferTime"
  with gvt_hit [OF creds, of tok x e w] run
  show "v = Some (JStr tok)" "posts w' = posts w" "users w' = users w"
    by auto
next
  assume h: "(\<not> truthy_str (webhook_auth_token u) \<or> webhook_auth_token_expiration u = None
            \<or> (\<exists>y. webhook_auth_token_expiration u = Some y \<and> y - bufferTime < clock e (ticks w)))
          \<and> respond e (length (posts w)) (token_request un pw turl (oauth_format u)) = Response st d
          \<and> 200 \<le> st \<and> st < 300
          \<and> handle_response d = Inr \<lparr>access_token = Some (JStr a), expires_in = ex\<rparr>
          \<and> (ex = Some (JNum n) \<and> n \<noteq> 0 \<or> \<not> truthy ex \<and> n = 3600)
          \<and> valid_time (clock e (ticks w' - 1) + n * 1000)"
  from h have stale: "\<not> truthy_str (webhook_auth_token u) \<or> webhook_auth_token_expiration u = None
            \<or> (\<exists>y. webhook_auth_token_expiration u = Some y \<and> y - bufferTime < clock e (ticks w))"
    by (rule conjunct1)
  from gvt_stale [OF creds stale]
  obtain w0 where w0: "w0 = w \<or> w0 = w\<lparr>ticks := Suc (ticks w)\<rparr>"
    and g: "getValidOAuthToken e u w = renew_token e u un pw turl w0"
    by blast
  from g run have ren: "renew_token e u un pw turl w0 = (v, w')"
    by simp
  from w0 have p0: "posts w0 = posts w" and u0: "users w0 = users w" by auto
  from h p0 have resp: "respond e (length (posts w0)) (token_request un pw turl (oauth_format u)) = Response st d"
    by simp
  from h have ok: "200 \<le> st" "st < 300"
    and hr: "handle_response d = Inr \<lparr>access_token = Some (JStr a), expires_in = ex\<rparr>"
    and ex: "ex = Some (JNum n) \<and> n \<noteq> 0 \<or> \<not> truthy ex \<and> n = 3600"
    and vt: "valid_time (clock e (ticks w' - 1) + n * 1000)"
    by auto
  note rs = renew_success [OF resp ok hr ex ren]
  from rs have t: "ticks w' - 1 = ticks w0" by simp
  from rs vt t p0 u0
  show "v = Some (JStr a)"
    "posts w' = posts w @ [token_request un pw turl (oauth_format u)]"
    "users w' = updateUserWebhookAuth (user_id u)
                   (no_updates\<lparr>cfg_webhook_auth_token := Some (Some a),
                      cfg_webhook_auth_token_expiration :=
                        Some (Some (clock e (ticks w' - 1) + n * 1000))\<rparr>)
                   (users w)"
    by auto
qed

theorem C2_getValidOAuthToken_cache_or_refresh_witness:
  "fst (getValidOAuthToken ok_env alice_cached (start [alice_cached])) = Some (JStr ''old-token'')
   \<and> posts (snd (getValidOAuthToken ok_env alice_cached (start [alice_cached]))) = []
   \<and> users (snd (getValidOAuthToken ok_env alice_cached (start [alice_cached]))) = [alice_cached]
   \<and> fst (getValidOAuthToken ok_env alice (start [alice])) = Some (JStr ''new-token'')
   \<and> posts (snd (getValidOAuthToken ok_env alice (start [alice])))
       = [token_request ''client'' ''secret'' ''https://x/token'' ''oauth2'']
   \<and> users (snd (getValidOAuthToken ok_env alice (start [alice])))
       = updateUserWebhookAuth 1
           (no_updates\<lparr>cfg_webhook_auth_token := Some (Some ''new-token''),
              cfg_webhook_auth_token_expiration := Some (Some (1000000 + 7200 * 1000))\<rparr>)
           [alice]"
proof -
  have run1: "getValidOAuthToken ok_env alice_cached (start [alice_cached])
      = (fst (getValidOAuthToken ok_env alice_cached (start [alice_cached])),
         snd (getValidOAuthToken ok_env alice_cached (start [alice_cached])))"
    by simp
  have run2: "getValidOAuthToken ok_env alice (start [alice])
      = (fst (getValidOAuthToken ok_env alice (start [alice])),
         snd (getValidOAuthToken ok_env alice (start [alice])))"
    by simp
  have hit: "webhook_auth_token alice_cached = Some ''old-token'' \<and> ''old-token'' \<noteq> []
      \<and> webhook_auth_token_expiration alice_cached = Some 4600000
      \<and> clock ok_env (ticks (start [alice_cached])) \<le> 4600000 - bufferTime"
    by (simp add: alice_cached_def alice_def ok_env_def fixed_env_def start_def bufferTime_def)
  have stale: "(\<not> truthy_str (webhook_auth_token alice) \<or> webhook_auth_token_expiration alice = None
        \<or> (\<exists>y. webhook_auth_token_expiration alice = Some y
              \<and> y - bufferTime < clock ok_env (ticks (start [alice]))))
      \<and> respond ok_env (length (posts (start [alice])))
            (token_request ''client'' ''secret'' ''https://x/token'' (oauth_format alice))
          = Response 200 (JObj [(''access_token'', JStr ''new-token''), (''expires_in'', JNum 7200)])
      \<and> (200::nat) \<le> 200 \<and> (200::nat) < 300
      \<and> handle_response (JObj [(''access_token'', JStr ''new-token''), (''expires_in'', JNum 7200)])
          = Inr \<lparr>access_token = Some (JStr ''new-token''), expires_in = Some (JNum 7200)\<rparr>
      \<and> (Some (JNum 7200) = Some (JNum 7200) \<and> (7200::int) \<noteq> 0
          \<or> \<not> truthy (Some (JNum 7200)) \<and> (7200::int) = 3600)
      \<and> valid_time (clock ok_env (ticks (snd (getValidOAuthToken ok_env alice (start [alice]))) - 1)
                      + 7200 * 1000)"
    by (simp add: alice_def ok_env_def fixed_env_def start_def handle_response_def valid_time_def)
  from C2_getValidOAuthToken_cache_or_refresh [OF alice_cached_creds run1, of "''old-token''" 4600000] hit
  have 1: "fst (getValidOAuthToken ok_env alice_cached (start [alice_cached])) = Some (JStr ''old-token'')
      \<and> posts (snd (getValidOAuthToken ok_env alice_cached (start [alice_cached])))
          = posts (start [alice_cached])
      \<and> users (snd (getValidOAuthToken ok_env alice_cached (start [alice_cached])))
          = users (start [alice_cached])"
    by blast
  from C2_getValidOAuthToken_cache_or_refresh [OF alice_creds run2, of _ _ 200
             "JObj [(''access_token'', JStr ''new-token''), (''expires_in'', JNum 7200)]"
             "''new-token''" "Some (JNum 7200)" 7200] stale
  have 2: "fst (getValidOAuthToken ok_env alice (start [alice])) = Some (JStr ''new-token'')
      \<and> posts (snd (getValidOAuthToken ok_env alice (start [alice])))
          = posts (start [alice])
              @ [token_request ''client'' ''secret'' ''https://x/token'' (oauth_format alice)]
      \<and> users (snd (getValidOAuthToken ok_env alice (start [alice])))
          = updateUserWebhookAuth (user_id alice)
              (no_updates\<lparr>cfg_webhook_auth_token := Some (Some ''new-token''),
                 cfg_webhook_auth_token_expiration :=
                   Some (Some (clock ok_env
                     (ticks (snd (getValidOAuthToken ok_env alice (start [alice]))) - 1)
                       + 7200 * 1000))\<rparr>)
              (users (start [alice]))"
    by blast
  have c: "\<And>k. clock ok_env k = 1000000"
    by (simp add: ok_env_def fixed_env_def)
  have f: "oauth_format alice = ''oauth2''" "user_id alice = 1"
    by (simp_all add: oauth_format_def alice_def)
  from 1 2 show ?thesis
    by (simp add: c f start_def)
qed

section \<open>Properties of the fan-out\<close>

lemma send_posts_legacy:
  "posts (sendWebhookWithAuth e target b None w) =
     posts w @ [\<lparr>url = target, body = b,
                 headers = [(''Content-Type'', ''application/json'')]\<rparr>]"
  by (rule send_posts) (simp add: getWebhookAuthHeaders_def)

lemma headers_posts:
  "posts (snd (getWebhookAuthHeaders e uo w)) = posts w
   \<or> (\<exists>un pw turl fmt. posts (snd (getWebhookAuthHeaders e uo w))
                          = posts w @ [token_request un pw turl fmt])"
proof (cases uo)
  case None
  then show ?thesis by (simp add: getWebhookAuthHeaders_def)
next
  case (Some u)
  obtain v w1 where g: "getValidOAuthToken e u w = (v, w1)"
    by (cases "getValidOAuthToken e u w")
  have "posts w1 = posts w \<or> (\<exists>un pw turl fmt. posts w1 = posts w @ [token_request un pw turl fmt])"
  proof -
    from gvt_cases [of e u w] g
    consider "w1 = w" | "w1 = w\<lparr>ticks := Suc (ticks w)\<rparr>"
      | un pw turl where "(v, w1) = renew_token e u un pw turl w"
      | un pw turl where "(v, w1) = renew_token e u un pw turl (w\<lparr>ticks := Suc (ticks w)\<rparr>)"
      by auto
    then show ?thesis
    proof cases
      case 1
      then show ?thesis by simp
    next
      case 2
      then show ?thesis by simp
    next
      case 3
      from renew_posts [of e u un pw turl w] 3 [symmetric] show ?thesis
        by auto
    next
      case 4
      from renew_posts [of e u un pw turl "w\<lparr>ticks := Suc (ticks w)\<rparr>"] 4 [symmetric] show ?thesis
        by auto
    qed
  qed
  with Some g show ?thesis
    by (auto simp: getWebhookAuthHeaders_def split: option.splits)
qed
lemma hello_not_broadcast:
  "sessionId hello = ''alice'' \<and> fromMe (key hello) \<noteq> Some True
   \<and> (\<forall>jid. remoteJid (key hello) = Some jid \<longrightarrow> \<not> includes_str jid ''broadcast'')"
  by (simp add: hello_def)

text \<open>
  C8. For every event of a session whose tenant has a callback URL, with the legacy
  webhook configured: a message that is neither self-sent nor a broadcast, and every
  session-status event, issue exactly two webhook requests with the same body, in this
  order. The first goes to the tenant's callback (\<^verbatim>\<open>callback/session\<close> for a status
  event) with \<^verbatim>\<open>Content-Type\<close> and the headers \<^verbatim>\<open>getWebhookAuthHeaders\<close> returned for
  the tenant; the second goes to the legacy URL (\<^verbatim>\<open>legacy/session\<close> for a status event)
  with \<^verbatim>\<open>Content-Type\<close> alone. The only other request there can be is the token request
  of an \<^verbatim>\<open>oauth\<close> tenant, issued before the two. This holds for every environment, that
  is, whatever the outcome of each of the requests: a failed delivery is caught in
  \<^verbatim>\<open>sendWebhookWithAuth\<close> and the next one is still attempted.
\<close>

theorem C8_two_posts_same_body:
  assumes tenant: "getUserForSession (users w) sid = Some u"
    and cb: "callback_url u = Some cb" "cb \<noteq> []"
    and legacy: "WEBHOOK_BASE_URL e = Some g" "g \<noteq> []"
    and auth: "getWebhookAuthHeaders e (Some u) w = (auth, w1)"
  shows "(sessionId m = sid \<and> fromMe (key m) \<noteq> Some True
          \<and> (\<forall>jid. remoteJid (key m) = Some jid \<longrightarrow> \<not> includes_str jid ''broadcast'')
          \<longrightarrow> posts (onMessageReceived e m w) =
                posts w1 @
                [\<lparr>url = cb, body = message_event m,
                  headers = (''Content-Type'', ''application/json'') # auth\<rparr>,
                 \<lparr>url = g, body = message_event m,
                  headers = [(''Content-Type'', ''application/json'')]\<rparr>])
       \<and> posts (sendSessionWebhook e sid status w) =
            posts w1 @
            [\<lparr>url = cb @ ''/session'', body = SessionEvent sid status,
              headers = (''Content-Type'', ''application/json'') # auth\<rparr>,
             \<lparr>url = g @ ''/session'', body = SessionEvent sid status,
              headers = [(''Content-Type'', ''application/json'')]\<rparr>]
       \<and> (posts w1 = posts w
          \<or> (\<exists>un pw turl fmt. posts w1 = posts w @ [token_request un pw turl fmt]))"
proof (intro conjI impI)
  assume m: "sessionId m = sid \<and> fromMe (key m) \<noteq> Some True
          \<and> (\<forall>jid. remoteJid (key m) = Some jid \<longrightarrow> \<not> includes_str jid ''broadcast'')"
  then have nf: "\<not> (fromMe (key m) = Some True
      \<or> (case remoteJid (key m) of None \<Rightarrow> False | Some jid \<Rightarrow> includes_str jid ''broadcast''))"
    by (auto split: option.splits)
  from m tenant have t: "getUserForSession (users w) (sessionId m) = Some u"
    by simp
  show "posts (onMessageReceived e m w) =
                posts w1 @
                [\<lparr>url = cb, body = message_event m,
                  headers = (''Content-Type'', ''application/json'') # auth\<rparr>,
                 \<lparr>url = g, body = message_event m,
                  headers = [(''Content-Type'', ''application/json'')]\<rparr>]"
    using nf t cb legacy send_posts [OF auth, of cb "message_event m"]
    by (simp add: onMessageReceived_def Let_def send_posts_legacy)
next
  show "posts (sendSessionWebhook e sid status w) =
            posts w1 @
            [\<lparr>url = cb @ ''/session'', body = SessionEvent sid status,
              headers = (''Content-Type'', ''application/json'') # auth\<rparr>,
             \<lparr>url = g @ ''/session'', body = SessionEvent sid status,
              headers = [(''Content-Type'', ''application/json'')]\<rparr>]"
    using tenant cb legacy send_posts [OF auth, of "cb @ ''/session''" "SessionEvent sid status"]
    by (simp add: sendSessionWebhook_def Let_def send_posts_legacy)
next
  show "posts w1 = posts w
          \<or> (\<exists>un pw turl fmt. posts w1 = posts w @ [token_request un pw turl fmt])"
    using headers_posts [of e "Some u" w] auth by simp
qed

theorem C8_two_posts_same_body_witness:
  "posts (onMessageReceived legacy_down_env hello (start [alice_bearer])) =
     [\<lparr>url = ''https://x/hook'', body = message_event hello,
       headers = [(''Content-Type'', ''application/json''),
                  (''Authorization'', ''Bearer static-token'')]\<rparr>,
      \<lparr>url = ''https://g/hook'', body = message_event hello,
       headers = [(''Content-Type'', ''application/json'')]\<rparr>]
   \<and> posts (sendSessionWebhook legacy_down_env ''alice'' ''connected'' (start [alice_bearer])) =
     [\<lparr>url = ''https://x/hook/session'', body = SessionEvent ''alice'' ''connected'',
       headers = [(''Content-Type'', ''application/json''),
                  (''Authorization'', ''Bearer static-token'')]\<rparr>,
      \<lparr>url = ''https://g/hook/session'', body = SessionEvent ''alice'' ''connected'',
       headers = [(''Content-Type'', ''application/json'')]\<rparr>]"
proof -
  have tenant: "getUserForSession (users (start [alice_bearer])) ''alice'' = Some alice_bearer"
    by (simp add: getUserForSession_def getUserByUsername_def start_def alice_bearer_def alice_def)
  have cb: "callback_url alice_bearer = Some ''https://x/hook''" "''https://x/hook'' \<noteq> []"
    by (simp_all add: alice_bearer_def alice_def)
  have legacy: "WEBHOOK_BASE_URL legacy_down_env = Some ''https://g/hook''" "''https://g/hook'' \<noteq> []"
    by (simp_all add: legacy_down_env_def fixed_env_def)
  have auth: "getWebhookAuthHeaders legacy_down_env (Some alice_bearer) (start [alice_bearer])
                = ([(''Authorization'', ''Bearer static-token'')], start [alice_bearer])"
    by (simp add: getWebhookAuthHeaders_def alice_bearer_def alice_def)
  from C8_two_posts_same_body [OF tenant cb legacy auth, of hello "''connected''"] hello_not_broadcast
  show ?thesis
    by (simp add: start_def)
qed

end
